theory Spec2Isabelle
  imports Main "HOL-Library.Sublist"
begin

section \<open>Python values and library collaborators\<close>

text \<open>
  Exceptions are values. Only the class of an exception matters to the code modelled
  here: every handler is either \<^verbatim>\<open>except Exception\<close> or
  \<^verbatim>\<open>except asyncio.exceptions.CancelledError\<close>.
\<close>

datatype py_error = ValueError | TypeError | RuntimeError

text \<open>
  What an awaited call of the browser or of a library does: it returns, it raises an
  \<^verbatim>\<open>Exception\<close>, or the awaiting task is cancelled there
  (\<^verbatim>\<open>CancelledError\<close>, which \<^verbatim>\<open>except Exception\<close> does not catch).
\<close>

datatype 'a outcome = Done 'a | Raised py_error | Cancelled

text \<open>
  Python slices \<^verbatim>\<open>xs[:n]\<close> and \<^verbatim>\<open>xs[n:]\<close> on an unbounded integer bound: a negative
  bound counts from the end, and both ends are clamped to the list.
\<close>

definition slice_to :: "int \<Rightarrow> 'a list \<Rightarrow> 'a list" where
  "slice_to n xs = take (nat (if n < 0 then int (length xs) + n else n)) xs"

definition slice_from :: "int \<Rightarrow> 'a list \<Rightarrow> 'a list" where
  "slice_from n xs = drop (nat (if n < 0 then int (length xs) + n else n)) xs"

text \<open>
  The standard library is not part of the repository, so its functions are parameters of
  the model: \<^verbatim>\<open>RobotFileParser.can_fetch(useragent, url)\<close>, which returns a boolean or
  raises; \<^verbatim>\<open>urllib.parse.urlparse(url)\<close>, which returns a parse result (of which the
  code reads \<^verbatim>\<open>netloc\<close> and \<^verbatim>\<open>hostname\<close>) or raises \<^verbatim>\<open>ValueError\<close>;
  \<^verbatim>\<open>urllib.parse.urljoin(base, url)\<close>, which parses both arguments and so can raise
  as well; and \<^verbatim>\<open>datetime.isoformat()\<close>.
\<close>

type_synonym robots_rules = "string \<Rightarrow> string \<Rightarrow> py_error + bool"

record parse_result =
  netloc :: string
  hostname :: "string option"

type_synonym url_parser = "string \<Rightarrow> py_error + parse_result"

type_synonym url_joiner = "string \<Rightarrow> string \<Rightarrow> py_error + string"

type_synonym datetime = nat

section \<open>The scraper object (scrapers/website\_scraper.py)\<close>

text \<open>
  The dictionary that \<^verbatim>\<open>_extract_content\<close> returns. Its values come from the page and
  from \<^verbatim>\<open>hashlib\<close> and are not computed in the model.
\<close>

record document =
  doc_url :: string
  doc_title :: string
  doc_content :: string
  doc_content_hash :: string
  doc_last_modified :: "string option"
  doc_scraped_at :: string

text \<open>
  The document store is a collaborator. The model keeps what the scraper does to it:
  the documents handed to \<^verbatim>\<open>store_documents\<close> (which catches its own exceptions) and
  whether \<^verbatim>\<open>close\<close> was called (which catches its own exceptions too).
\<close>

record store =
  received :: "document list"
  closed :: bool

text \<open>
  The fields of \<^verbatim>\<open>WebsiteScraper\<close>. \<^verbatim>\<open>visited_urls\<close> is a Python set,
  \<^verbatim>\<open>urls_to_scrape\<close> a Python list. \<^verbatim>\<open>robots_parser\<close> is an option only because
  \<^verbatim>\<open>_can_fetch\<close> tests its truth value: a \<^verbatim>\<open>RobotFileParser\<close> object is always
  true, \<^verbatim>\<open>None\<close> would be false.
\<close>

record scraper =
  scraper_id :: string
  base_url :: string
  user_agent :: string
  visited_urls :: "string set"
  urls_to_scrape :: "string list"
  override_robots :: bool
  robots_parser :: "robots_rules option"
  stop_triggered :: bool
  last_scraped_time :: "datetime option"
  document_store :: store

text \<open>
  \<^verbatim>\<open>__init__\<close>: the document store is created first (and may fail), the robots parser
  is set up (\<^verbatim>\<open>_setup_robots_parser\<close> catches a failed read and always returns the
  parser), and \<^verbatim>\<open>asyncio.Semaphore(MAX_CONCURRENT_PAGES)\<close> raises \<^verbatim>\<open>ValueError\<close> on a
  negative value.
\<close>

definition new_scraper ::
  "int \<Rightarrow> py_error option \<Rightarrow> robots_rules \<Rightarrow> string \<Rightarrow> string \<Rightarrow> string \<Rightarrow> bool
    \<Rightarrow> py_error + scraper" where
  "new_scraper max_concurrent_pages store_failure rules base ua collection_name ovr =
     (case store_failure of
        Some e \<Rightarrow> Inl e
      | None \<Rightarrow>
          if max_concurrent_pages < 0 then Inl ValueError
          else Inr \<lparr>scraper_id = collection_name, base_url = base, user_agent = ua,
                    visited_urls = {}, urls_to_scrape = [], override_robots = ovr,
                    robots_parser = Some rules, stop_triggered = False,
                    last_scraped_time = None,
                    document_store = \<lparr>received = [], closed = False\<rparr>\<rparr>)"

text \<open>\<^verbatim>\<open>_can_fetch\<close>: the whole body is inside \<^verbatim>\<open>try ... except Exception: return False\<close>.\<close>

definition can_fetch :: "scraper \<Rightarrow> string \<Rightarrow> bool" where
  "can_fetch s url =
     (if override_robots s then True
      else (case robots_parser s of
              None \<Rightarrow> True
            | Some rules \<Rightarrow>
                (case rules (user_agent s) url of
                   Inl e \<Rightarrow> False
                 | Inr allowed \<Rightarrow> allowed)))"

subsection \<open>The frontier: batches and offers\<close>

text \<open>
  The guard of the main loop of \<^verbatim>\<open>scrape_website\<close>:
  \<^verbatim>\<open>while self.urls_to_scrape and len(self.visited_urls) < max_pages\<close>.
\<close>

definition loop_guard :: "int \<Rightarrow> scraper \<Rightarrow> bool" where
  "loop_guard max_pages s \<longleftrightarrow>
     urls_to_scrape s \<noteq> [] \<and> int (card (visited_urls s)) < max_pages"

text \<open>
  Drawing a batch (the \<^verbatim>\<open>if not first_run ... else ...\<close> of the loop body). After the
  first iteration the batch is \<^verbatim>\<open>urls_to_scrape[:MAX_CONCURRENT_PAGES]\<close> and the
  frontier becomes \<^verbatim>\<open>urls_to_scrape[MAX_CONCURRENT_PAGES:]\<close>; in the first iteration the
  batch is the frontier itself and the frontier is not changed.
\<close>

definition next_batch :: "bool \<Rightarrow> int \<Rightarrow> scraper \<Rightarrow> string list \<times> scraper" where
  "next_batch first_run max_concurrent_pages s =
     (if \<not> first_run then
        (slice_to max_concurrent_pages (urls_to_scrape s),
         s\<lparr>urls_to_scrape := slice_from max_concurrent_pages (urls_to_scrape s)\<rparr>)
      else (urls_to_scrape s, s))"

text \<open>
  The URLs of a batch for which a task is created:
  \<^verbatim>\<open>for url in batch if url not in self.visited_urls and self._can_fetch(url)\<close>.
\<close>

definition batch_tasks :: "scraper \<Rightarrow> string list \<Rightarrow> string list" where
  "batch_tasks s batch = filter (\<lambda>url. url \<notin> visited_urls s \<and> can_fetch s url) batch"

definition mark_visited :: "string \<Rightarrow> scraper \<Rightarrow> scraper" where
  "mark_visited url s = s\<lparr>visited_urls := insert url (visited_urls s)\<rparr>"

text \<open>
  Offering the links of one page to the frontier:
  \<^verbatim>\<open>self.urls_to_scrape.extend([link for link in new_links if (link not in
  self.visited_urls and link not in self.urls_to_scrape and self._can_fetch(link))])\<close>.
  The comprehension is evaluated in full before \<^verbatim>\<open>extend\<close> runs, so every link is
  tested against the frontier as it was before any link of this page was appended.
\<close>

definition offer_links :: "string list \<Rightarrow> scraper \<Rightarrow> scraper" where
  "offer_links new_links s =
     s\<lparr>urls_to_scrape := urls_to_scrape s @
         filter (\<lambda>link. link \<notin> visited_urls s \<and> link \<notin> set (urls_to_scrape s) \<and> can_fetch s link)
           new_links\<rparr>"

subsection \<open>Link extraction\<close>

text \<open>
  \<^verbatim>\<open>_extract_links\<close>: the loop over the \<^verbatim>\<open>href\<close> values of the anchors selected by
  \<^verbatim>\<open>a[href]\<close>, in document order, with the list \<^verbatim>\<open>links\<close> as accumulator. An empty
  \<^verbatim>\<open>href\<close> is skipped, one that starts with \<^verbatim>\<open>base_url\<close> is appended as it is, one
  that starts with \<^verbatim>\<open>/\<close> is appended after \<^verbatim>\<open>urljoin(self.base_url, href)\<close>, and an
  exception of \<^verbatim>\<open>urljoin\<close> leaves the function.
\<close>

fun collect_links :: "url_joiner \<Rightarrow> string \<Rightarrow> string list \<Rightarrow> string list \<Rightarrow> py_error + string list" where
  "collect_links urljoin base links [] = Inr links"
| "collect_links urljoin base links (href # elements) =
     (if href = [] then collect_links urljoin base links elements
      else if prefix base href then collect_links urljoin base (links @ [href]) elements
      else if prefix ''/'' href then
        (case urljoin base href of
           Inl e \<Rightarrow> Inl e
         | Inr full_url \<Rightarrow> collect_links urljoin base (links @ [full_url]) elements)
      else collect_links urljoin base links elements)"

text \<open>
  The anchors of a page are what \<^verbatim>\<open>page.query_selector_all\<close> and
  \<^verbatim>\<open>element.get_attribute\<close> return, which may raise or be cancelled.
\<close>

definition extract_links :: "url_joiner \<Rightarrow> scraper \<Rightarrow> string list outcome \<Rightarrow> string list outcome" where
  "extract_links urljoin s anchors =
     (case anchors of
        Done hrefs \<Rightarrow>
          (case collect_links urljoin (base_url s) [] hrefs of
             Inl e \<Rightarrow> Raised e
           | Inr links \<Rightarrow> Done links)
      | Raised e \<Rightarrow> Raised e
      | Cancelled \<Rightarrow> Cancelled)"

subsection \<open>One fetch-extract-discover unit\<close>

text \<open>
  What the browser does for one unit, up to the first step that fails: opening the page
  (\<^verbatim>\<open>context.new_page()\<close>), \<^verbatim>\<open>page.goto\<close>, \<^verbatim>\<open>asyncio.sleep(crawl_delay)\<close>, the
  queries of \<^verbatim>\<open>_extract_content\<close> and the anchors read by \<^verbatim>\<open>_extract_links\<close>.
  Cancellation is modelled at the awaits inside the inner \<^verbatim>\<open>try\<close>, where the code
  handles it; a cancellation while the page is being opened would leave the unit as a
  \<^verbatim>\<open>CancelledError\<close> and is outside the model. Closing the page in the \<^verbatim>\<open>finally\<close>
  clause changes nothing of the scraper.
\<close>

record page =
  pg_open :: "py_error option"
  pg_goto :: "unit outcome"
  pg_sleep :: "unit outcome"
  pg_content :: "document outcome"
  pg_anchors :: "string list outcome"

text \<open>
  \<^verbatim>\<open>_extract_content\<close> catches every \<^verbatim>\<open>Exception\<close> and returns \<^verbatim>\<open>None\<close> then.
\<close>

definition extract_content :: "document outcome \<Rightarrow> document option outcome" where
  "extract_content c =
     (case c of
        Done d \<Rightarrow> Done (Some d)
      | Raised e \<Rightarrow> Done None
      | Cancelled \<Rightarrow> Cancelled)"

definition store_documents :: "document list \<Rightarrow> scraper \<Rightarrow> scraper" where
  "store_documents docs s =
     s\<lparr>document_store := (document_store s)\<lparr>received := received (document_store s) @ docs\<rparr>\<rparr>"

text \<open>
  The three stretches of \<^verbatim>\<open>_scrape_page\<close> between which other tasks (and \<^verbatim>\<open>stop\<close>)
  can run, each returning whether the unit goes on and the new state.
  \<^verbatim>\<open>unit_fetch\<close> is the part from opening the page to \<^verbatim>\<open>self.visited_urls.add(url)\<close>,
  \<^verbatim>\<open>unit_extract\<close> the content extraction and the hand-over to the store,
  \<^verbatim>\<open>unit_discover\<close> the link extraction and the extension of the frontier. Every
  failure ends the unit: an \<^verbatim>\<open>Exception\<close> in the outer handler, a cancellation in
  the inner one, both of which only log.
\<close>

definition unit_fetch :: "page \<Rightarrow> string \<Rightarrow> scraper \<Rightarrow> bool \<times> scraper" where
  "unit_fetch pg url s =
     (case pg_open pg of
        Some e \<Rightarrow> (False, s)
      | None \<Rightarrow>
          (case pg_goto pg of
             Done response \<Rightarrow>
               (case pg_sleep pg of
                  Done u \<Rightarrow> (True, mark_visited url s)
                | Raised e \<Rightarrow> (False, s)
                | Cancelled \<Rightarrow> (False, s))
           | Raised e \<Rightarrow> (False, s)
           | Cancelled \<Rightarrow> (False, s)))"

definition unit_extract :: "page \<Rightarrow> scraper \<Rightarrow> bool \<times> scraper" where
  "unit_extract pg s =
     (case extract_content (pg_content pg) of
        Done None \<Rightarrow> (True, s)
      | Done (Some d) \<Rightarrow> (True, store_documents [d] s)
      | Raised e \<Rightarrow> (False, s)
      | Cancelled \<Rightarrow> (False, s))"

definition unit_discover :: "url_joiner \<Rightarrow> page \<Rightarrow> scraper \<Rightarrow> scraper" where
  "unit_discover urljoin pg s =
     (case extract_links urljoin s (pg_anchors pg) of
        Done new_links \<Rightarrow> offer_links new_links s
      | Raised e \<Rightarrow> s
      | Cancelled \<Rightarrow> s)"

text \<open>The body of \<^verbatim>\<open>_scrape_page\<close> after its first test, run without interruption.\<close>

definition unit_body :: "url_joiner \<Rightarrow> page \<Rightarrow> string \<Rightarrow> scraper \<Rightarrow> scraper" where
  "unit_body urljoin pg url s =
     (case unit_fetch pg url s of
        (False, s1) \<Rightarrow> s1
      | (True, s1) \<Rightarrow>
          (case unit_extract pg s1 of
             (False, s2) \<Rightarrow> s2
           | (True, s2) \<Rightarrow> unit_discover urljoin pg s2))"

text \<open>\<^verbatim>\<open>_scrape_page\<close>: \<^verbatim>\<open>if url in self.visited_urls: return\<close>, then the body.\<close>

definition scrape_page :: "url_joiner \<Rightarrow> page \<Rightarrow> string \<Rightarrow> scraper \<Rightarrow> scraper" where
  "scrape_page urljoin pg url s =
     (if url \<in> visited_urls s then s else unit_body urljoin pg url s)"

subsection \<open>Stop and progress\<close>

text \<open>
  \<^verbatim>\<open>stop\<close> sets the flag, clears the visited set and the frontier and closes the
  document store.
\<close>

definition stop :: "scraper \<Rightarrow> scraper" where
  "stop s =
     s\<lparr>stop_triggered := True, visited_urls := {}, urls_to_scrape := [],
       document_store := (document_store s)\<lparr>closed := True\<rparr>\<rparr>"

record snapshot =
  snap_visited_urls :: nat
  snap_remaining_urls :: nat
  snap_last_scraped_time :: "string option"

text \<open>
  \<^verbatim>\<open>progress\<close> returns a dictionary of three entries; the model returns it together
  with the scraper as the call leaves it.
\<close>

definition progress :: "(datetime \<Rightarrow> string) \<Rightarrow> scraper \<Rightarrow> snapshot \<times> scraper" where
  "progress isoformat s =
     (\<lparr>snap_visited_urls = card (visited_urls s),
       snap_remaining_urls = length (urls_to_scrape s),
       snap_last_scraped_time =
         (case last_scraped_time s of None \<Rightarrow> None | Some t \<Rightarrow> Some (isoformat t))\<rparr>,
      s)"

subsection \<open>The main loop of the crawl\<close>

text \<open>
  \<^verbatim>\<open>asyncio.gather\<close> starts every task of the batch; each task runs to its first
  await before any of them resumes, so the first test of every unit
  (\<^verbatim>\<open>if url in self.visited_urls: return\<close>) sees the state in which the batch
  started. After that the units interleave at their awaits. \<^verbatim>\<open>gather\<close> below is the
  schedule in which the units complete one after the other, in the order of the tasks;
  \<^verbatim>\<open>site\<close> is what the browser does for each URL.
\<close>

definition gather :: "url_joiner \<Rightarrow> (string \<Rightarrow> page) \<Rightarrow> string list \<Rightarrow> scraper \<Rightarrow> scraper" where
  "gather urljoin site tasks s =
     foldl (\<lambda>s' url. unit_body urljoin (site url) url s') s
       (filter (\<lambda>url. url \<notin> visited_urls s) tasks)"

text \<open>
  The \<^verbatim>\<open>while\<close> loop of \<^verbatim>\<open>scrape_website\<close>, with fuel: \<^verbatim>\<open>None\<close> when the loop has
  not ended after that many iterations. It returns the batches in the order in which
  they were drawn, and the scraper. A unit waits for a permit of
  \<^verbatim>\<open>asyncio.Semaphore(MAX_CONCURRENT_PAGES)\<close>, so with no permit at all a batch with
  a task never completes.
\<close>

fun scrape_loop ::
  "nat \<Rightarrow> url_joiner \<Rightarrow> (string \<Rightarrow> page) \<Rightarrow> int \<Rightarrow> int \<Rightarrow> bool \<Rightarrow> scraper
    \<Rightarrow> (string list list \<times> scraper) option" where
  "scrape_loop 0 urljoin site max_pages max_concurrent_pages first_run s = None"
| "scrape_loop (Suc fuel) urljoin site max_pages max_concurrent_pages first_run s =
     (if loop_guard max_pages s then
        (case next_batch first_run max_concurrent_pages s of
           (batch, s1) \<Rightarrow>
             (if batch_tasks s1 batch \<noteq> [] \<and> max_concurrent_pages \<le> 0 then None
              else
                (case scrape_loop fuel urljoin site max_pages max_concurrent_pages False
                        (gather urljoin site (batch_tasks s1 batch) s1) of
                   None \<Rightarrow> None
                 | Some (batches, s2) \<Rightarrow> Some (batch # batches, s2))))
      else Some ([], s))"

text \<open>
  \<^verbatim>\<open>scrape_website\<close>: the start time is recorded and the visited set cleared, the
  browser is launched (a failure leaves the function as an exception), the frontier is
  set to \<^verbatim>\<open>[self.base_url]\<close> and the loop runs with \<^verbatim>\<open>first_run = True\<close>.
\<close>

definition scrape_website ::
  "nat \<Rightarrow> url_joiner \<Rightarrow> datetime \<Rightarrow> py_error option \<Rightarrow> (string \<Rightarrow> page) \<Rightarrow> int \<Rightarrow> int \<Rightarrow> scraper
    \<Rightarrow> ((py_error + string list list) \<times> scraper) option" where
  "scrape_website fuel urljoin now launch_failure site max_pages max_concurrent_pages s =
     (case launch_failure of
        Some e \<Rightarrow> Some (Inl e, s\<lparr>last_scraped_time := Some now, visited_urls := {}\<rparr>)
      | None \<Rightarrow>
          (case scrape_loop fuel urljoin site max_pages max_concurrent_pages True
                  (s\<lparr>last_scraped_time := Some now, visited_urls := {},
                     urls_to_scrape := [base_url s]\<rparr>) of
             None \<Rightarrow> None
           | Some (batches, s') \<Rightarrow> Some (Inr batches, s')))"

section \<open>The HTTP service (app.py)\<close>

text \<open>
  The module keeps the scrapers in a dictionary keyed by host. The model adds the
  scheduler's jobs (by job id, with their interval in hours) and the hosts for which
  \<^verbatim>\<open>scraper.scrape_website\<close> was handed to the background tasks, in order.
\<close>

record app =
  scrapers :: "string \<rightharpoonup> scraper"
  jobs :: "string \<rightharpoonup> int"
  background :: "string list"

datatype response = ErrorResponse string int | ScrapeResponse string

definition check_domain :: "string \<Rightarrow> string option" where
  "check_domain url = (if prefix ''http'' url then Some url else None)"

definition extract_domain :: "url_parser \<Rightarrow> string \<Rightarrow> py_error + string option" where
  "extract_domain urlparse domain =
     (if domain = [] then Inr None
      else (case urlparse domain of
              Inl e \<Rightarrow> Inl e
            | Inr parsed_uri \<Rightarrow> Inr (hostname parsed_uri)))"

text \<open>
  \<^verbatim>\<open>hasattr(scrapers, host)\<close> asks whether the dictionary object has an attribute of
  that name; it does not look at the keys. These are the attribute names of a \<^verbatim>\<open>dict\<close>
  (CPython 3.11). With \<^verbatim>\<open>None\<close> for a name, as \<^verbatim>\<open>extract_domain\<close> returns for a URL
  without a host, \<^verbatim>\<open>hasattr\<close> raises \<^verbatim>\<open>TypeError\<close>.
\<close>

definition dict_attribute_names :: "string list" where
  "dict_attribute_names =
     [''__class__'', ''__class_getitem__'', ''__contains__'', ''__delattr__'', ''__delitem__'',
      ''__dir__'', ''__doc__'', ''__eq__'', ''__format__'', ''__ge__'', ''__getattribute__'',
      ''__getitem__'', ''__getstate__'', ''__gt__'', ''__hash__'', ''__init__'',
      ''__init_subclass__'', ''__ior__'', ''__iter__'', ''__le__'', ''__len__'', ''__lt__'',
      ''__ne__'', ''__new__'', ''__or__'', ''__reduce__'', ''__reduce_ex__'', ''__repr__'',
      ''__reversed__'', ''__ror__'', ''__setattr__'', ''__setitem__'', ''__sizeof__'',
      ''__str__'', ''__subclasshook__'', ''clear'', ''copy'', ''fromkeys'', ''get'', ''items'',
      ''keys'', ''pop'', ''popitem'', ''setdefault'', ''update'', ''values'']"

definition hasattr_dict :: "string \<Rightarrow> bool" where
  "hasattr_dict name \<longleftrightarrow> name \<in> set dict_attribute_names"

text \<open>
  \<^verbatim>\<open>start_scrape\<close> (POST /scrape/start). \<^verbatim>\<open>request.url\<close> is a string;
  \<^verbatim>\<open>schedule_interval_hours\<close> is optional. The scraper is built with
  \<^verbatim>\<open>WebsiteScraper(domain, collection_name=host, override_robots=True)\<close>; what its
  construction meets outside the program (the document store, the robots rules read)
  and the module constants (user agent, concurrency) are parameters. An exception that
  leaves the handler is the left injection.
\<close>

definition start_scrape ::
  "url_parser \<Rightarrow> int \<Rightarrow> py_error option \<Rightarrow> robots_rules \<Rightarrow> string \<Rightarrow> string \<Rightarrow> int option \<Rightarrow> app
    \<Rightarrow> (py_error + response) \<times> app" where
  "start_scrape urlparse max_concurrent_pages store_failure rules default_user_agent url
      schedule_interval_hours a =
     (case check_domain url of
        None \<Rightarrow>
          (Inr (ErrorResponse ''Missing domain in the request. Specify using 'url' field'' 400), a)
      | Some domain \<Rightarrow>
          (case extract_domain urlparse domain of
             Inl e \<Rightarrow> (Inl e, a)
           | Inr None \<Rightarrow> (Inl TypeError, a)
           | Inr (Some host) \<Rightarrow>
               if hasattr_dict host then
                 (Inr (ErrorResponse (''Scraper for domain '' @ host @ '' already exists'') 400), a)
               else
                 (case new_scraper max_concurrent_pages store_failure rules domain
                         default_user_agent host True of
                    Inl e \<Rightarrow> (Inl e, a)
                  | Inr scraper \<Rightarrow>
                      (Inr (ScrapeResponse ''Scraping started successfully''),
                       a\<lparr>scrapers := (scrapers a)(host \<mapsto> scraper),
                         jobs :=
                           (case schedule_interval_hours of
                              None \<Rightarrow> jobs a
                            | Some interval \<Rightarrow>
                                if interval = 0 then jobs a
                                else (jobs a)(''scraper_'' @ host \<mapsto> interval)),
                         background := background a @ [host]\<rparr>))))"

section \<open>The MCP server (mcp/app.py)\<close>

text \<open>
  \<^verbatim>\<open>is_url_allowed\<close>: \<^verbatim>\<open>urlparse(url)\<close> is the first statement inside the \<^verbatim>\<open>try\<close>,
  before the test for an empty list of allowed hosts; \<^verbatim>\<open>except Exception\<close> returns
  \<^verbatim>\<open>False\<close>. The module's \<^verbatim>\<open>ALLOWED_HOSTS\<close> is a parameter.
\<close>

definition is_url_allowed :: "url_parser \<Rightarrow> string list \<Rightarrow> string \<Rightarrow> bool" where
  "is_url_allowed urlparse allowed_hosts url =
     (case urlparse url of
        Inl e \<Rightarrow> False
      | Inr parsed \<Rightarrow>
          if allowed_hosts = [] then True
          else (case hostname parsed of
                  None \<Rightarrow> False
                | Some h \<Rightarrow> h \<in> set allowed_hosts))"

text \<open>\<^verbatim>\<open>', '.join(ALLOWED_HOSTS)\<close>.\<close>

fun join_comma :: "string list \<Rightarrow> string" where
  "join_comma [] = []"
| "join_comma [h] = h"
| "join_comma (h # hs) = h @ '', '' @ join_comma hs"

text \<open>
  The three tools that take a URL from the client. Each returns an error text without
  calling the service when \<^verbatim>\<open>is_url_allowed\<close> is false. Otherwise \<^verbatim>\<open>start_scrape\<close>
  posts the URL and the interval to the service and \<^verbatim>\<open>stop_scrape\<close> puts the URL;
  \<^verbatim>\<open>Forwarded\<close> says that the request is sent, and what comes back (a response, a
  timeout, a connection error) is outside the model. \<^verbatim>\<open>search\<close> builds its payload
  from \<^verbatim>\<open>urlparse(url).netloc\<close> and the query and then calls
  \<^verbatim>\<open>client.get(url, json=...)\<close>; the \<^verbatim>\<open>get\<close> of \<^verbatim>\<open>httpx.AsyncClient\<close> has no
  parameter \<^verbatim>\<open>json\<close>, so the call raises \<^verbatim>\<open>TypeError\<close> before anything is sent, and
  \<^verbatim>\<open>except Exception\<close> returns the text of the exception as the tool's answer
  (\<^verbatim>\<open>RequestFailed\<close>).
\<close>

datatype service_request =
    StartRequest string "int option"
  | StopRequest string
  | StatusRequest string

datatype tool_result =
    NotAllowed string
  | Forwarded service_request
  | RequestFailed py_error
  | ToolRaised py_error

definition tool_search :: "url_parser \<Rightarrow> string list \<Rightarrow> string \<Rightarrow> string \<Rightarrow> tool_result" where
  "tool_search urlparse allowed_hosts url query =
     (if \<not> is_url_allowed urlparse allowed_hosts url then
        NotAllowed (''URL not allowed. Host must be in: '' @ join_comma allowed_hosts)
      else (case urlparse url of
              Inl e \<Rightarrow> ToolRaised e
            | Inr parsed \<Rightarrow> RequestFailed TypeError))"

definition tool_start_scrape ::
  "url_parser \<Rightarrow> string list \<Rightarrow> string \<Rightarrow> int option \<Rightarrow> tool_result" where
  "tool_start_scrape urlparse allowed_hosts url schedule_interval_hours =
     (if \<not> is_url_allowed urlparse allowed_hosts url then
        NotAllowed (''URL not allowed. Host must be in: '' @ join_comma allowed_hosts)
      else Forwarded (StartRequest url schedule_interval_hours))"

definition tool_stop_scrape :: "url_parser \<Rightarrow> string list \<Rightarrow> string \<Rightarrow> tool_result" where
  "tool_stop_scrape urlparse allowed_hosts url =
     (if \<not> is_url_allowed urlparse allowed_hosts url then
        NotAllowed (''URL not allowed. Host must be in: '' @ join_comma allowed_hosts)
      else Forwarded (StopRequest url))"

text \<open>
  The two tools without a URL argument apply the same test to the address of the
  service itself, \<^verbatim>\<open>f"{SERVICE_URL}/scrape/status"\<close> and \<^verbatim>\<open>f"{SERVICE_URL}/statusz"\<close>,
  and then send a GET request there.
\<close>

definition tool_get_scrape_status :: "url_parser \<Rightarrow> string list \<Rightarrow> string \<Rightarrow> tool_result" where
  "tool_get_scrape_status urlparse allowed_hosts service_url =
     (if \<not> is_url_allowed urlparse allowed_hosts (service_url @ ''/scrape/status'') then
        NotAllowed (''URL not allowed. Host must be in: '' @ join_comma allowed_hosts)
      else Forwarded (StatusRequest (service_url @ ''/scrape/status'')))"

definition tool_test_connection :: "url_parser \<Rightarrow> string list \<Rightarrow> string \<Rightarrow> tool_result" where
  "tool_test_connection urlparse allowed_hosts service_url =
     (if \<not> is_url_allowed urlparse allowed_hosts (service_url @ ''/statusz'') then
        NotAllowed (''URL not allowed. Host must be in: '' @ join_comma allowed_hosts)
      else Forwarded (StatusRequest (service_url @ ''/statusz'')))"

section \<open>Library behaviour at the inputs of the examples\<close>

text \<open>
  The theorems below hold for every \<^verbatim>\<open>urlparse\<close>, \<^verbatim>\<open>urljoin\<close> and robots ruleset.
  Where a statement evaluates the model at a concrete input, the library functions are
  these tables of what CPython's \<^verbatim>\<open>urllib.parse\<close> returns at the inputs used:
  \<^verbatim>\<open>urlparse("http://[")\<close> raises \<^verbatim>\<open>ValueError\<close> (Invalid IPv6 URL),
  \<^verbatim>\<open>urlparse("https://example.com")\<close> has \<^verbatim>\<open>netloc\<close> and \<^verbatim>\<open>hostname\<close>
  \<^verbatim>\<open>example.com\<close>, \<^verbatim>\<open>urljoin("https://site", "/b")\<close> is \<^verbatim>\<open>https://site/b\<close>, and
  \<^verbatim>\<open>urljoin("https://site", "//[")\<close> raises \<^verbatim>\<open>ValueError\<close> (Invalid IPv6 URL). At
  any other input the tables are not used.
\<close>

definition urlparse_table :: url_parser where
  "urlparse_table url =
     (if url = ''http://['' then Inl ValueError
      else if url = ''https://example.com'' then
        Inr \<lparr>netloc = ''example.com'', hostname = Some ''example.com''\<rparr>
      else Inr \<lparr>netloc = [], hostname = None\<rparr>)"

definition urljoin_table :: url_joiner where
  "urljoin_table base url =
     (if base = ''https://site'' \<and> url = ''/b'' then Inr ''https://site/b''
      else if base = ''https://site'' \<and> url = ''//['' then Inl ValueError
      else Inr url)"

text \<open>
  A ruleset that allows everything, one whose evaluation always raises, the scraper that
  \<^verbatim>\<open>WebsiteScraper("https://site", override_robots=True)\<close> builds, and a site of two
  pages: the base page, which loads and has one anchor to \<^verbatim>\<open>https://site/a\<close>, and
  every other page, which loads and has no anchor.
\<close>

definition robots_allow_all :: robots_rules where
  "robots_allow_all useragent url = Inr True"

definition robots_raising :: robots_rules where
  "robots_raising useragent url = Inl ValueError"

definition site_scraper :: scraper where
  "site_scraper =
     \<lparr>scraper_id = ''site'', base_url = ''https://site'', user_agent = ''bot'',
      visited_urls = {}, urls_to_scrape = [], override_robots = True,
      robots_parser = Some robots_allow_all, stop_triggered = False,
      last_scraped_time = None, document_store = \<lparr>received = [], closed = False\<rparr>\<rparr>"

definition two_page_site :: "string \<Rightarrow> page" where
  "two_page_site url =
     \<lparr>pg_open = None, pg_goto = Done (), pg_sleep = Done (),
      pg_content =
        Done \<lparr>doc_url = url, doc_title = [], doc_content = [], doc_content_hash = [],
              doc_last_modified = None, doc_scraped_at = []\<rparr>,
      pg_anchors = (if url = ''https://site'' then Done [''https://site/a''] else Done [])\<rparr>"

text \<open>
  The same site with two anchors to \<^verbatim>\<open>https://site/a\<close> on its base page, as a page
  has that links to another page from its menu and from its footer.
\<close>

definition twin_anchor_site :: "string \<Rightarrow> page" where
  "twin_anchor_site url =
     \<lparr>pg_open = None, pg_goto = Done (), pg_sleep = Done (),
      pg_content =
        Done \<lparr>doc_url = url, doc_title = [], doc_content = [], doc_content_hash = [],
              doc_last_modified = None, doc_scraped_at = []\<rparr>,
      pg_anchors =
        (if url = ''https://site'' then Done [''https://site/a'', ''https://site/a'']
         else Done [])\<rparr>"

text \<open>
  The scraper that \<^verbatim>\<open>start_scrape\<close> builds for \<^verbatim>\<open>https://example.com\<close>.
\<close>

definition example_scraper :: scraper where
  "example_scraper =
     \<lparr>scraper_id = ''example.com'', base_url = ''https://example.com'', user_agent = ''bot'',
      visited_urls = {}, urls_to_scrape = [], override_robots = True,
      robots_parser = Some robots_allow_all, stop_triggered = False,
      last_scraped_time = None, document_store = \<lparr>received = [], closed = False\<rparr>\<rparr>"

text \<open>
  A schedule of one crawl of the two-page site with a \<^verbatim>\<open>stop\<close> in it: the first
  iteration of the loop draws the batch with the base URL and starts its unit; while
  the unit waits for \<^verbatim>\<open>page.goto\<close>, \<^verbatim>\<open>stop()\<close> runs (the HTTP handler
  \<^verbatim>\<open>stop_scrape\<close> is a plain function, served from another thread); then the unit
  resumes and runs to its end. This is the scraper when \<^verbatim>\<open>gather\<close> returns.
\<close>

text \<open>
  A page that loads and whose unit is cancelled during the crawl delay.
\<close>

definition delay_cancelled_page :: page where
  "delay_cancelled_page =
     \<lparr>pg_open = None, pg_goto = Done (), pg_sleep = Cancelled,
      pg_content =
        Done \<lparr>doc_url = ''https://site/x'', doc_title = [], doc_content = [],
              doc_content_hash = [], doc_last_modified = None, doc_scraped_at = []\<rparr>,
      pg_anchors = Done []\<rparr>"

definition stopped_during_first_fetch :: scraper where
  "stopped_during_first_fetch =
     unit_body urljoin_table (two_page_site ''https://site'') ''https://site''
       (stop (snd (next_batch True 25
          (site_scraper\<lparr>last_scraped_time := Some 0, urls_to_scrape := [''https://site'']\<rparr>))))"

section \<open>Properties\<close>

subsection \<open>The policy guard\<close>

text \<open>
  C8. With \<^verbatim>\<open>override_robots\<close> set, \<^verbatim>\<open>_can_fetch\<close> returns true for every URL and every
  robots ruleset, present or absent, whatever the ruleset would answer; with
  \<^verbatim>\<open>override_robots\<close> unset and a ruleset whose evaluation raises, it returns false.
\<close>

theorem can_fetch_override_and_fail_closed:
  "(override_robots s \<longrightarrow> can_fetch s url) \<and>
   (\<not> override_robots s \<and> robots_parser s = Some rules \<and> rules (user_agent s) url = Inl e
      \<longrightarrow> \<not> can_fetch s url)"
  by (simp add: can_fetch_def)

text \<open>
  At the scraper for \<^verbatim>\<open>https://site\<close>: with the override and a ruleset that raises on
  every URL the answer is true, without the override it is false.
\<close>

theorem can_fetch_override_and_fail_closed_witness:
  "can_fetch (site_scraper\<lparr>robots_parser := Some robots_raising\<rparr>) ''https://site/private'' \<and>
   \<not> can_fetch (site_scraper\<lparr>override_robots := False, robots_parser := Some robots_raising\<rparr>)
       ''https://site/private''"
  using can_fetch_override_and_fail_closed
          [of "site_scraper\<lparr>robots_parser := Some robots_raising\<rparr>"
              "''https://site/private''" robots_raising ValueError]
        can_fetch_override_and_fail_closed
          [of "site_scraper\<lparr>override_robots := False, robots_parser := Some robots_raising\<rparr>"
              "''https://site/private''" robots_raising ValueError]
  by (simp add: site_scraper_def robots_raising_def)

subsection \<open>Stop and progress\<close>

text \<open>
  C7. After \<^verbatim>\<open>stop\<close>, from any state of the scraper, the frontier and the visited set
  are empty, and \<^verbatim>\<open>progress\<close> returns the snapshot with both counts zero and the
  time of the last run; \<^verbatim>\<open>progress\<close> has no failing step.
\<close>

theorem stop_then_progress:
  "length (urls_to_scrape (stop s)) = 0 \<and>
   card (visited_urls (stop s)) = 0 \<and>
   fst (progress isoformat (stop s)) =
     \<lparr>snap_visited_urls = 0, snap_remaining_urls = 0,
      snap_last_scraped_time = map_option isoformat (last_scraped_time s)\<rparr>"
  by (simp add: stop_def progress_def split: option.splits)

text \<open>
  C9. \<^verbatim>\<open>progress\<close> returns the number of visited URLs, the length of the frontier
  and the time of the last run, and leaves the scraper as it was, every field of it.
\<close>

theorem progress_read_only:
  "snd (progress isoformat s) = s \<and>
   fst (progress isoformat s) =
     \<lparr>snap_visited_urls = card (visited_urls s),
      snap_remaining_urls = length (urls_to_scrape s),
      snap_last_scraped_time = map_option isoformat (last_scraped_time s)\<rparr>"
  by (simp add: progress_def split: option.splits)

subsection \<open>The boundary of marking a URL visited\<close>

lemma visited_offer_links: "visited_urls (offer_links new_links s) = visited_urls s"
  by (simp add: offer_links_def)

lemma visited_unit_discover: "visited_urls (unit_discover urljoin pg s) = visited_urls s"
  by (simp add: unit_discover_def visited_offer_links split: outcome.splits)

lemma visited_unit_extract: "visited_urls (snd (unit_extract pg s)) = visited_urls s"
  by (simp add: unit_extract_def store_documents_def split: outcome.splits option.splits)

lemma visited_unit_fetch:
  "visited_urls (snd (unit_fetch pg url s)) =
     (if pg_open pg = None \<and> pg_goto pg = Done () \<and> pg_sleep pg = Done ()
      then insert url (visited_urls s) else visited_urls s)"
  by (simp add: unit_fetch_def mark_visited_def split: outcome.splits option.splits)

lemma visited_unit_body:
  "visited_urls (unit_body urljoin pg url s) =
     (if pg_open pg = None \<and> pg_goto pg = Done () \<and> pg_sleep pg = Done ()
      then insert url (visited_urls s) else visited_urls s)"
proof -
  obtain go s1 where f: "unit_fetch pg url s = (go, s1)"
    by (cases "unit_fetch pg url s")
  obtain go2 s2 where e: "unit_extract pg s1 = (go2, s2)"
    by (cases "unit_extract pg s1")
  have v1: "visited_urls s1 =
     (if pg_open pg = None \<and> pg_goto pg = Done () \<and> pg_sleep pg = Done ()
      then insert url (visited_urls s) else visited_urls s)"
    using visited_unit_fetch [of pg url s] f by simp
  have v2: "visited_urls s2 = visited_urls s1"
    using visited_unit_extract [of pg s1] e by simp
  have "visited_urls (unit_body urljoin pg url s) = visited_urls s1"
    using f e v2 by (cases go; cases go2) (simp_all add: unit_body_def visited_unit_discover)
  then show ?thesis using v1 by simp
qed

text \<open>
  The boundary lies behind the crawl delay: a unit whose \<^verbatim>\<open>asyncio.sleep\<close> does not
  return (the task is cancelled there) ends without marking the URL.
\<close>

lemma interrupted_delay_not_marked:
  assumes "pg_open pg = None" and "pg_goto pg = Done ()" and "pg_sleep pg \<noteq> Done ()"
  shows "visited_urls (scrape_page urljoin pg url s) = visited_urls s"
  using assms by (simp add: scrape_page_def visited_unit_body)

text \<open>
  C5, as stated, fails: the page is fetched (\<^verbatim>\<open>page.goto\<close> returns), the unit is
  cancelled during \<^verbatim>\<open>asyncio.sleep(crawl_delay)\<close>, and the URL is not in the visited
  set when the unit ends.
\<close>

theorem fetched_but_not_marked:
  "pg_open delay_cancelled_page = None \<and>
   pg_goto delay_cancelled_page = Done () \<and>
   ''https://site/x'' \<notin>
     visited_urls (scrape_page urljoin_table delay_cancelled_page ''https://site/x'' site_scraper)"
  by (simp add: scrape_page_def visited_unit_body delay_cancelled_page_def site_scraper_def)

text \<open>
  C5, amended. For one run of \<^verbatim>\<open>_scrape_page\<close> on a URL, the URL is added to the
  visited set exactly when the fetch succeeds (the page is opened and \<^verbatim>\<open>page.goto\<close>
  returns) and the crawl delay after it is slept to its end; then it is in the visited
  set when the unit ends, whatever content extraction, the document store and link
  discovery do, failures included. If the fetch fails, or the sleep is cancelled or
  raises, the visited set is left as it was.
\<close>

theorem scrape_page_visited_boundary:
  "visited_urls (scrape_page urljoin pg url s) =
     (if pg_open pg = None \<and> pg_goto pg = Done () \<and> pg_sleep pg = Done ()
      then insert url (visited_urls s) else visited_urls s)"
  by (auto simp add: scrape_page_def visited_unit_body)

text \<open>
  A page whose \<^verbatim>\<open>goto\<close> raises leaves the visited set empty; a page that loads but
  whose content extraction and link extraction both raise is marked visited.
\<close>

theorem scrape_page_visited_boundary_witness:
  "visited_urls (scrape_page urljoin_table
       \<lparr>pg_open = None, pg_goto = Raised RuntimeError, pg_sleep = Done (),
        pg_content = Raised RuntimeError, pg_anchors = Raised RuntimeError\<rparr>
       ''https://site/x'' site_scraper) = {} \<and>
   visited_urls (scrape_page urljoin_table
       \<lparr>pg_open = None, pg_goto = Done (), pg_sleep = Done (),
        pg_content = Raised RuntimeError, pg_anchors = Raised RuntimeError\<rparr>
       ''https://site/x'' site_scraper) = {''https://site/x''}"
  using scrape_page_visited_boundary
          [of urljoin_table
              "\<lparr>pg_open = None, pg_goto = Raised RuntimeError, pg_sleep = Done (),
                pg_content = Raised RuntimeError, pg_anchors = Raised RuntimeError\<rparr>"
              "''https://site/x''" site_scraper]
        scrape_page_visited_boundary
          [of urljoin_table
              "\<lparr>pg_open = None, pg_goto = Done (), pg_sleep = Done (),
                pg_content = Raised RuntimeError, pg_anchors = Raised RuntimeError\<rparr>"
              "''https://site/x''" site_scraper]
  by (simp add: site_scraper_def)

subsection \<open>Link extraction\<close>

lemma collect_links_acc:
  assumes "\<forall>href \<in> set hrefs. href \<noteq> [] \<and> \<not> prefix base href \<and> prefix ''/'' href
             \<longrightarrow> (\<exists>full_url. urljoin base href = Inr full_url)"
  shows "collect_links urljoin base acc hrefs =
     Inr (acc @ concat (map (\<lambda>href.
            if href \<noteq> [] \<and> prefix base href then [href]
            else if href \<noteq> [] \<and> prefix ''/'' href then
              (case urljoin base href of Inr full_url \<Rightarrow> [full_url] | Inl e \<Rightarrow> [])
            else []) hrefs))"
  using assms
proof (induction hrefs arbitrary: acc)
  case Nil
  then show ?case by simp
next
  case (Cons href hrefs)
  then show ?case by (cases "urljoin base href") auto
qed

lemma collect_links_raises:
  assumes "\<exists>href \<in> set hrefs. href \<noteq> [] \<and> \<not> prefix base href \<and> prefix ''/'' href \<and>
             isl (urljoin base href)"
  shows "\<exists>e. collect_links urljoin base acc hrefs = Inl e"
  using assms
proof (induction hrefs arbitrary: acc)
  case Nil
  then show ?case by simp
next
  case (Cons href hrefs)
  show ?case
  proof (cases "href \<noteq> [] \<and> \<not> prefix base href \<and> prefix ''/'' href \<and> isl (urljoin base href)")
    case True
    then show ?thesis by (cases "urljoin base href") auto
  next
    case False
    with Cons.prems
    have "\<exists>h \<in> set hrefs. h \<noteq> [] \<and> \<not> prefix base h \<and> prefix ''/'' h \<and> isl (urljoin base h)"
      by auto
    then have "\<And>acc'. \<exists>e. collect_links urljoin base acc' hrefs = Inl e"
      using Cons.IH by blast
    then show ?thesis by (cases "urljoin base href") auto
  qed
qed

text \<open>
  C6, as stated, fails: the result is not a set. Two anchors with the same \<^verbatim>\<open>href\<close>
  give a list with two entries.
\<close>

theorem extract_links_keeps_duplicates:
  "extract_links urljoin_table site_scraper (Done [''https://site/a'', ''https://site/a''])
     = Done [''https://site/a'', ''https://site/a'']"
  by (simp add: extract_links_def site_scraper_def)

text \<open>
  C6, amended. \<^verbatim>\<open>_extract_links\<close> returns a list in document order, duplicates kept,
  with one entry for each anchor whose non-empty \<^verbatim>\<open>href\<close> starts with the base URL
  (the \<^verbatim>\<open>href\<close> itself) or else starts with \<^verbatim>\<open>/\<close> (the result of \<^verbatim>\<open>urljoin\<close> with
  the base URL), and nothing for any other anchor. It returns so when \<^verbatim>\<open>urljoin\<close>
  raises on none of the \<^verbatim>\<open>href\<close>s of the second kind, and raises otherwise.
\<close>

theorem extract_links_in_document_order:
  "((\<forall>href \<in> set hrefs.
        href \<noteq> [] \<and> \<not> prefix (base_url s) href \<and> prefix ''/'' href
          \<longrightarrow> \<not> isl (urljoin (base_url s) href))
     \<longrightarrow> extract_links urljoin s (Done hrefs) =
          Done (concat (map (\<lambda>href.
                  if href \<noteq> [] \<and> prefix (base_url s) href then [href]
                  else if href \<noteq> [] \<and> prefix ''/'' href then
                    (case urljoin (base_url s) href of Inr full_url \<Rightarrow> [full_url] | Inl e \<Rightarrow> [])
                  else []) hrefs))) \<and>
   ((\<exists>href \<in> set hrefs.
        href \<noteq> [] \<and> \<not> prefix (base_url s) href \<and> prefix ''/'' href \<and>
        isl (urljoin (base_url s) href))
     \<longrightarrow> (\<exists>e. extract_links urljoin s (Done hrefs) = Raised e))"
proof (intro conjI impI)
  assume ok: "\<forall>href \<in> set hrefs.
        href \<noteq> [] \<and> \<not> prefix (base_url s) href \<and> prefix ''/'' href
          \<longrightarrow> \<not> isl (urljoin (base_url s) href)"
  have "\<forall>href \<in> set hrefs.
        href \<noteq> [] \<and> \<not> prefix (base_url s) href \<and> prefix ''/'' href
          \<longrightarrow> (\<exists>full_url. urljoin (base_url s) href = Inr full_url)"
  proof (intro ballI impI)
    fix href
    assume "href \<in> set hrefs"
      and "href \<noteq> [] \<and> \<not> prefix (base_url s) href \<and> prefix ''/'' href"
    with ok have "\<not> isl (urljoin (base_url s) href)" by blast
    then show "\<exists>full_url. urljoin (base_url s) href = Inr full_url"
      by (cases "urljoin (base_url s) href") auto
  qed
  then show "extract_links urljoin s (Done hrefs) =
          Done (concat (map (\<lambda>href.
                  if href \<noteq> [] \<and> prefix (base_url s) href then [href]
                  else if href \<noteq> [] \<and> prefix ''/'' href then
                    (case urljoin (base_url s) href of Inr full_url \<Rightarrow> [full_url] | Inl e \<Rightarrow> [])
                  else []) hrefs))"
    using collect_links_acc [of hrefs "base_url s" urljoin "[]"]
    by (simp add: extract_links_def)
next
  assume "\<exists>href \<in> set hrefs.
        href \<noteq> [] \<and> \<not> prefix (base_url s) href \<and> prefix ''/'' href \<and>
        isl (urljoin (base_url s) href)"
  then obtain e where "collect_links urljoin (base_url s) [] hrefs = Inl e"
    using collect_links_raises [of hrefs "base_url s" urljoin "[]"] by blast
  then show "\<exists>e. extract_links urljoin s (Done hrefs) = Raised e"
    by (simp add: extract_links_def)
qed

text \<open>
  The example of the specification: the anchors \<^verbatim>\<open>https://site/a\<close>, \<^verbatim>\<open>/b\<close>,
  \<^verbatim>\<open>https://other.com/c\<close> and \<^verbatim>\<open>#frag\<close> with base URL \<^verbatim>\<open>https://site\<close>; and a page
  with the anchor \<^verbatim>\<open>//[\<close>, on which \<^verbatim>\<open>urljoin\<close> raises.
\<close>

theorem extract_links_in_document_order_witness:
  "extract_links urljoin_table site_scraper
       (Done [''https://site/a'', ''/b'', ''https://other.com/c'', ''#frag''])
     = Done [''https://site/a'', ''https://site/b''] \<and>
   extract_links urljoin_table site_scraper (Done [''//['']) = Raised ValueError"
  using extract_links_in_document_order
          [of "[''https://site/a'', ''/b'', ''https://other.com/c'', ''#frag'']"
              site_scraper urljoin_table]
        extract_links_in_document_order [of "[''//['']" site_scraper urljoin_table]
  by (simp add: site_scraper_def urljoin_table_def extract_links_def)

subsection \<open>The allowed hosts of the MCP server\<close>

text \<open>
  C10, as stated, fails at a string that \<^verbatim>\<open>urlparse\<close> rejects: with no allowed host
  configured, \<^verbatim>\<open>is_url_allowed("http://[")\<close> is false and the tool answers with the
  error text instead of calling the service.
\<close>

theorem is_url_allowed_unparseable:
  "\<not> is_url_allowed urlparse_table [] ''http://['' \<and>
   tool_start_scrape urlparse_table [] ''http://['' (Some 24)
     = NotAllowed ''URL not allowed. Host must be in: ''"
  by (simp add: is_url_allowed_def tool_start_scrape_def urlparse_table_def)

text \<open>
  C10, amended. With an empty list of allowed hosts, \<^verbatim>\<open>is_url_allowed\<close> is true for
  exactly the strings that \<^verbatim>\<open>urlparse\<close> parses without raising, whatever their host.
  For these no tool answers with the refusal: \<^verbatim>\<open>search\<close> refuses exactly the strings
  on which \<^verbatim>\<open>urlparse\<close> raises, and \<^verbatim>\<open>start_scrape\<close> and \<^verbatim>\<open>stop_scrape\<close> send their
  request to the service for every string that parses and refuse the others. The two
  tools without a URL argument do the same with the address of the service.
\<close>

theorem is_url_allowed_empty_hosts:
  "is_url_allowed urlparse [] url = (case urlparse url of Inl e \<Rightarrow> False | Inr parsed \<Rightarrow> True) \<and>
   (tool_search urlparse [] url query = NotAllowed ''URL not allowed. Host must be in: '')
     = isl (urlparse url) \<and>
   tool_start_scrape urlparse [] url interval =
     (case urlparse url of
        Inl e \<Rightarrow> NotAllowed ''URL not allowed. Host must be in: ''
      | Inr parsed \<Rightarrow> Forwarded (StartRequest url interval)) \<and>
   tool_stop_scrape urlparse [] url =
     (case urlparse url of
        Inl e \<Rightarrow> NotAllowed ''URL not allowed. Host must be in: ''
      | Inr parsed \<Rightarrow> Forwarded (StopRequest url)) \<and>
   tool_get_scrape_status urlparse [] service_url =
     (case urlparse (service_url @ ''/scrape/status'') of
        Inl e \<Rightarrow> NotAllowed ''URL not allowed. Host must be in: ''
      | Inr parsed \<Rightarrow> Forwarded (StatusRequest (service_url @ ''/scrape/status''))) \<and>
   tool_test_connection urlparse [] service_url =
     (case urlparse (service_url @ ''/statusz'') of
        Inl e \<Rightarrow> NotAllowed ''URL not allowed. Host must be in: ''
      | Inr parsed \<Rightarrow> Forwarded (StatusRequest (service_url @ ''/statusz'')))"
  by (simp add: is_url_allowed_def tool_search_def tool_start_scrape_def tool_stop_scrape_def
      tool_get_scrape_status_def tool_test_connection_def split: sum.splits)

text \<open>
  Whatever the allowed hosts and the URL, \<^verbatim>\<open>search\<close> sends nothing to the service.
\<close>

lemma tool_search_sends_nothing:
  "tool_search urlparse allowed_hosts url query \<noteq> Forwarded request"
  by (simp add: tool_search_def split: sum.splits)

subsection \<open>Batches\<close>

text \<open>
  C2, as stated, fails: in the crawl of the two-page site the base URL is in the first
  batch and again in the second. The first iteration takes the frontier as its batch
  without removing anything from it.
\<close>

theorem seed_in_two_batches:
  "map_option fst (scrape_website 3 urljoin_table 0 None two_page_site 10 25 site_scraper)
     = Some (Inr [[''https://site''], [''https://site'', ''https://site/a'']])"
  by (simp add: unit_body_def unit_fetch_def unit_extract_def unit_discover_def
      extract_links_def extract_content_def store_documents_def offer_links_def mark_visited_def
      can_fetch_def scrape_website_def loop_guard_def next_batch_def batch_tasks_def gather_def
      slice_to_def slice_from_def
      site_scraper_def two_page_site_def numeral_3_eq_3)

text \<open>
  C2, amended. With a bound \<open>n \<ge> 0\<close>, every draw after the first iteration returns the
  first \<open>n\<close> URLs of the frontier in their order (all of them when there are fewer),
  so at most \<open>n\<close>, and leaves the rest of the frontier in its order. The first
  iteration returns the whole frontier and leaves the frontier as it is; at that point
  \<^verbatim>\<open>scrape_website\<close> has just set it to the base URL alone.
\<close>

theorem next_batch_front:
  "0 \<le> n \<Longrightarrow>
     fst (next_batch False n s) = take (nat n) (urls_to_scrape s) \<and>
     int (length (fst (next_batch False n s))) \<le> n \<and>
     snd (next_batch False n s) = s\<lparr>urls_to_scrape := drop (nat n) (urls_to_scrape s)\<rparr> \<and>
     fst (next_batch False n s) @ urls_to_scrape (snd (next_batch False n s)) = urls_to_scrape s \<and>
     next_batch True n s = (urls_to_scrape s, s) \<and>
     fst (next_batch True n
            (s\<lparr>last_scraped_time := Some now, visited_urls := {}, urls_to_scrape := [base_url s]\<rparr>))
       = [base_url s]"
  by (simp add: next_batch_def slice_to_def slice_from_def)

text \<open>A frontier of three URLs and the bound 2.\<close>

theorem next_batch_front_witness:
  "fst (next_batch False 2 (site_scraper\<lparr>urls_to_scrape := [''u1'', ''u2'', ''u3'']\<rparr>))
     = [''u1'', ''u2''] \<and>
   urls_to_scrape (snd (next_batch False 2 (site_scraper\<lparr>urls_to_scrape := [''u1'', ''u2'', ''u3'']\<rparr>)))
     = [''u3'']"
  using next_batch_front [of 2 "site_scraper\<lparr>urls_to_scrape := [''u1'', ''u2'', ''u3'']\<rparr>"]
  by (simp add: site_scraper_def)

subsection \<open>Offers to the frontier\<close>

text \<open>
  When the links of a page are pairwise different, offering them keeps a frontier
  without duplicates free of duplicates, and nothing visited is appended.
\<close>

lemma offer_links_distinct:
  assumes "distinct (urls_to_scrape s)" and "distinct new_links"
  shows "distinct (urls_to_scrape (offer_links new_links s))"
  using assms by (auto simp add: offer_links_def)

lemma offer_links_appends_unvisited:
  "\<exists>added. urls_to_scrape (offer_links new_links s) = urls_to_scrape s @ added \<and>
           set added \<inter> visited_urls s = {} \<and> set added \<inter> set (urls_to_scrape s) = {}"
  by (auto simp add: offer_links_def)

text \<open>
  C1 fails on the code. A page with two anchors to the same URL offers that URL
  twice; both tests are made against the frontier as it was before the page's links
  were appended, so the URL is appended twice. In the crawl of the site whose base page
  has two such anchors, the second batch holds \<^verbatim>\<open>https://site/a\<close> twice and the page
  is fetched and handed to the document store twice.
\<close>

theorem duplicate_link_enqueued_twice:
  "urls_to_scrape (offer_links [''https://site/a'', ''https://site/a'']
                     (site_scraper\<lparr>visited_urls := {''https://site''}\<rparr>))
     = [''https://site/a'', ''https://site/a''] \<and>
   map_option fst (scrape_website 3 urljoin_table 0 None twin_anchor_site 10 25 site_scraper)
     = Some (Inr [[''https://site''], [''https://site'', ''https://site/a'', ''https://site/a'']]) \<and>
   map_option (map doc_url \<circ> received \<circ> document_store \<circ> snd)
       (scrape_website 3 urljoin_table 0 None twin_anchor_site 10 25 site_scraper)
     = Some [''https://site'', ''https://site/a'', ''https://site/a'']"
  by (simp add: unit_body_def unit_fetch_def unit_extract_def unit_discover_def
      extract_links_def extract_content_def store_documents_def offer_links_def mark_visited_def
      can_fetch_def scrape_website_def loop_guard_def next_batch_def batch_tasks_def gather_def
      slice_to_def slice_from_def
      site_scraper_def twin_anchor_site_def numeral_3_eq_3)

subsection \<open>Stop and the main loop\<close>

text \<open>The guard of the loop does not read the stop flag.\<close>

lemma loop_guard_ignores_stop_flag:
  "loop_guard max_pages (s\<lparr>stop_triggered := b\<rparr>) = loop_guard max_pages s"
  by (simp add: loop_guard_def)

text \<open>
  C3 fails on the code. \<^verbatim>\<open>stop\<close> sets \<^verbatim>\<open>stop_triggered\<close>, but nothing reads the flag.
  In the schedule where \<^verbatim>\<open>stop()\<close> runs while the unit of the base URL waits for its
  page, the unit then marks the URL visited and offers its link, and when the batch is
  complete the flag is set, the guard of the loop holds, and the next iteration draws a
  batch and creates a task for \<^verbatim>\<open>https://site/a\<close>.
\<close>

theorem batch_drawn_after_stop:
  "stop_triggered stopped_during_first_fetch \<and>
   loop_guard 10 stopped_during_first_fetch \<and>
   fst (next_batch False 25 stopped_during_first_fetch) = [''https://site/a''] \<and>
   batch_tasks (snd (next_batch False 25 stopped_during_first_fetch))
     (fst (next_batch False 25 stopped_during_first_fetch)) = [''https://site/a'']"
  by (simp add: stopped_during_first_fetch_def unit_body_def unit_fetch_def unit_extract_def unit_discover_def
      extract_links_def extract_content_def store_documents_def offer_links_def mark_visited_def
      can_fetch_def
      loop_guard_def next_batch_def batch_tasks_def slice_to_def slice_from_def
      site_scraper_def two_page_site_def stop_def)

subsection \<open>Starting a crawl for a host\<close>

text \<open>
  The answer of \<^verbatim>\<open>start_scrape\<close> does not depend on the scrapers present.
\<close>

lemma start_scrape_ignores_scrapers:
  "fst (start_scrape urlparse n store_failure rules ua url interval (a\<lparr>scrapers := m\<rparr>))
     = fst (start_scrape urlparse n store_failure rules ua url interval a)"
  by (simp add: start_scrape_def split: option.splits sum.splits)

text \<open>
  C4 fails on the code. With a scraper for \<^verbatim>\<open>example.com\<close> in the middle of its crawl,
  a second \<^verbatim>\<open>start_scrape\<close> for \<^verbatim>\<open>https://example.com\<close> is answered with success:
  \<^verbatim>\<open>hasattr(scrapers, host)\<close> is false for a host that is not the name of a dictionary
  method. The entry of the host is replaced by a new scraper and a second crawl of the
  host is handed to the background tasks.
\<close>

theorem second_start_accepted:
  "fst (start_scrape urlparse_table 25 None robots_allow_all ''bot'' ''https://example.com'' None
          \<lparr>scrapers = [''example.com'' \<mapsto>
               example_scraper\<lparr>visited_urls := {''https://example.com''},
                                urls_to_scrape := [''https://example.com/a'']\<rparr>],
            jobs = Map.empty, background = [''example.com'']\<rparr>)
     = Inr (ScrapeResponse ''Scraping started successfully'') \<and>
   scrapers (snd (start_scrape urlparse_table 25 None robots_allow_all ''bot'' ''https://example.com'' None
          \<lparr>scrapers = [''example.com'' \<mapsto>
               example_scraper\<lparr>visited_urls := {''https://example.com''},
                                urls_to_scrape := [''https://example.com/a'']\<rparr>],
            jobs = Map.empty, background = [''example.com'']\<rparr>)) ''example.com''
     = Some example_scraper \<and>
   background (snd (start_scrape urlparse_table 25 None robots_allow_all ''bot'' ''https://example.com'' None
          \<lparr>scrapers = [''example.com'' \<mapsto>
               example_scraper\<lparr>visited_urls := {''https://example.com''},
                                urls_to_scrape := [''https://example.com/a'']\<rparr>],
            jobs = Map.empty, background = [''example.com'']\<rparr>))
     = [''example.com'', ''example.com'']"
  by (simp add: start_scrape_def check_domain_def extract_domain_def urlparse_table_def
      hasattr_dict_def dict_attribute_names_def new_scraper_def example_scraper_def)

end
